theory Spec2Isabelle
  imports Main
begin

section \<open>The DreamHost DNS client (internal/dreamhost/dreamhost.go)\<close>

text \<open>
  The package is a thin client over Go's standard library. Its own code is embedded
  function by function. The standard-library calls it makes (\<open>url.Parse\<close>,
  \<open>http.NewRequest\<close>, \<open>http.Client.Do\<close>, \<open>json.Unmarshal\<close>) are not code of
  the package; they are collected in a record \<open>lib\<close> of functions that every
  definition takes as its first argument, so a theorem about all \<open>lib\<close> values covers
  every behaviour of the library and of the remote end.

  A Go function that returns a pointer and an \<open>error\<close> returns a pair of options here: the code has
  one branch that returns both a response and an error.
\<close>

subsection \<open>Errors\<close>

text \<open>
  Go's \<open>error\<close> values as the package builds them: \<open>errors.New\<close> and \<open>fmt.Errorf\<close>
  without \<open>%w\<close> give a message; \<open>fmt.Errorf\<close> with \<open>%w\<close> gives a message and the
  wrapped cause. \<open>Error\<close> is the method \<open>Error()\<close>.
\<close>

datatype error = errorString string | wrapError string error

fun Error :: "error \<Rightarrow> string" where
  "Error (errorString s) = s"
| "Error (wrapError msg err) = msg"

definition errors_New :: "string \<Rightarrow> error" where
  "errors_New text = errorString text"

text \<open>\<open>fmt.Errorf(prefix + "%w", err)\<close>.\<close>

definition Errorf_w :: "string \<Rightarrow> error \<Rightarrow> error" where
  "Errorf_w prefix err = wrapError (prefix @ Error err) err"

text \<open>\<open>fmt.Errorf(prefix + "%v", x)\<close>, given the text that \<open>%v\<close> prints for \<open>x\<close>.\<close>

definition Errorf_v :: "string \<Rightarrow> string \<Rightarrow> error" where
  "Errorf_v prefix shown = errorString (prefix @ shown)"

subsection \<open>Strings\<close>

text \<open>\<open>strings.HasSuffix\<close> and \<open>strings.Contains\<close> (the latter is what the tests check
  error messages with).\<close>

definition strings_HasSuffix :: "string \<Rightarrow> string \<Rightarrow> bool" where
  "strings_HasSuffix s suffix =
     (length s \<ge> length suffix \<and> drop (length s - length suffix) s = suffix)"

fun strings_Contains :: "string \<Rightarrow> string \<Rightarrow> bool" where
  "strings_Contains [] substr = (substr = [])"
| "strings_Contains (x # s) substr =
     (take (length substr) (x # s) = substr \<or> strings_Contains s substr)"

text \<open>What \<open>%v\<close> prints for an \<open>int\<close>: the decimal digits, with a sign when negative.\<close>

function digits :: "nat \<Rightarrow> string" where
  "digits n = (if n < 10 then [char_of (48 + n)] else digits (n div 10) @ [char_of (48 + n mod 10)])"
  by pat_completeness auto
termination
  by (relation "measure (\<lambda>n. n)") auto

declare digits.simps [simp del]

definition fmt_v_int :: "int \<Rightarrow> string" where
  "fmt_v_int i = (if i < 0 then CHR ''-'' # digits (nat (- i)) else digits (nat i))"

subsection \<open>Data\<close>

text \<open>
  \<open>url.Values\<close> is \<open>map[string][]string\<close>. \<open>Add\<close> appends to the values of a key,
  \<open>Get\<close> reads the first value (or the empty string), \<open>Has\<close> tests the key.
\<close>

type_synonym Values = "string \<rightharpoonup> string list"

definition Values_Add :: "Values \<Rightarrow> string \<Rightarrow> string \<Rightarrow> Values" where
  "Values_Add v key val = v(key \<mapsto> (case v key of None \<Rightarrow> [] | Some vs \<Rightarrow> vs) @ [val])"

definition Values_Get :: "Values \<Rightarrow> string \<Rightarrow> string" where
  "Values_Get v key = (case v key of None \<Rightarrow> [] | Some [] \<Rightarrow> [] | Some (x # _) \<Rightarrow> x)"

definition Values_Has :: "Values \<Rightarrow> string \<Rightarrow> bool" where
  "Values_Has v key = (v key \<noteq> None)"

text \<open>
  The \<open>*url.URL\<close> a client holds. The package only ever calls \<open>String()\<close> on it, so it is
  represented by the string that \<open>String()\<close> returns.
\<close>

datatype URL = mkURL (String: string)

text \<open>
  An \<open>*http.Request\<close>: \<open>Method\<close> and \<open>URL\<close> are the arguments of \<open>http.NewRequest\<close>
  (the URL string the request was created from), \<open>Header\<close> the header map, and \<open>Query\<close>
  what \<open>req.URL.Query()\<close> returns. The code writes the query back with
  \<open>req.URL.RawQuery = q.Encode()\<close> and reads it again with \<open>req.URL.Query()\<close>; as
  decoding an encoded \<open>Values\<close> gives the same \<open>Values\<close>, the raw query is kept decoded.
\<close>

record Request =
  Method :: string
  URL :: string
  Header :: "string \<rightharpoonup> string list"
  Query :: Values

text \<open>A response body: the bytes \<open>io.ReadAll\<close> collects and the error it ends with, if any.\<close>

datatype ReadCloser = ReadCloser string "error option"

fun io_ReadAll :: "ReadCloser \<Rightarrow> string \<times> error option" where
  "io_ReadAll (ReadCloser b err) = (b, err)"

record Response =
  StatusCode :: int
  Body :: ReadCloser

text \<open>\<open>http.Client\<close>: the package sets \<open>Timeout\<close> (a \<open>time.Duration\<close>, in nanoseconds) and
  nothing else.\<close>

record http_Client =
  Timeout :: int

definition Second :: int where
  "Second = 1000000000"

record DreamhostResponse =
  Result :: string
  Data :: string
  Reason :: string

text \<open>What \<open>%v\<close> prints for a \<open>DreamhostResponse\<close>: the fields between braces.\<close>

definition fmt_v_DreamhostResponse :: "DreamhostResponse \<Rightarrow> string" where
  "fmt_v_DreamhostResponse a = ''{'' @ Result a @ '' '' @ Data a @ '' '' @ Reason a @ ''}''"

record DNSRecordValue =
  Name :: string
  RecordType :: string
  Value :: string

record DNSClient =
  apiKey :: string
  client :: http_Client
  BaseURL :: URL

subsection \<open>The standard library, as parameters\<close>

text \<open>
  \<^item> \<open>url_Parse\<close>: \<open>url.Parse\<close>, an error or the parsed URL;
  \<^item> \<open>request_Query\<close>: what \<open>http.NewRequest\<close> makes of its URL string, an error when the
    string does not parse, else the query parameters the new request starts with;
  \<^item> \<open>Client_Do\<close>: \<open>http.Client.Do\<close>, the exchange with the remote end: a transport
    error or the response received;
  \<^item> \<open>json_Unmarshal\<close>: \<open>json.Unmarshal\<close> into a fresh \<open>DreamhostResponse\<close>.
\<close>

record lib =
  url_Parse :: "string \<Rightarrow> error + URL"
  request_Query :: "string \<Rightarrow> error + Values"
  Client_Do :: "http_Client \<Rightarrow> Request \<Rightarrow> error + Response"
  json_Unmarshal :: "string \<Rightarrow> error + DreamhostResponse"

definition http_NewRequest :: "lib \<Rightarrow> string \<Rightarrow> string \<Rightarrow> error + Request" where
  "http_NewRequest L method url =
     (case request_Query L url of
        Inl err \<Rightarrow> Inl err
      | Inr q \<Rightarrow> Inr \<lparr>Method = method, URL = url, Header = Map.empty, Query = q\<rparr>)"

subsection \<open>The package\<close>

definition agentString :: string where
  "agentString = ''cert-manager-webhook-dreamhost/0.1''"

definition dreamhostBaseUrl :: string where
  "dreamhostBaseUrl = ''https://api.dreamhost.com/''"

definition NewClient :: "lib \<Rightarrow> string \<Rightarrow> http_Client option \<Rightarrow> string \<Rightarrow> DNSClient option \<times> error option" where
  "NewClient L apiKey' httpClient baseUrl =
     (if apiKey' = [] then (None, Some (errors_New ''empty apiKey''))
      else
        let httpClient = (case httpClient of
                            None \<Rightarrow> \<lparr>Timeout = Second * 15\<rparr>
                          | Some h \<Rightarrow> h);
            baseUrl = (if baseUrl = [] then dreamhostBaseUrl else baseUrl)
        in case url_Parse L baseUrl of
             Inl err \<Rightarrow> (None, Some (Errorf_w ''failed to parse URL: '' err))
           | Inr apiUrl \<Rightarrow> (Some \<lparr>apiKey = apiKey', client = httpClient, BaseURL = apiUrl\<rparr>, None))"

definition prepareRequest :: "DNSClient \<Rightarrow> Request \<Rightarrow> string \<Rightarrow> string \<Rightarrow> Request" where
  "prepareRequest c req cmd uniqueId =
     (let req = req\<lparr>Header := (Header req)(''User-Agent'' \<mapsto> [agentString])\<rparr>;
          q = Query req;
          q = Values_Add q ''key'' (apiKey c);
          q = Values_Add q ''cmd'' cmd;
          q = Values_Add q ''format'' ''json'';
          q = (if uniqueId \<noteq> [] then Values_Add q ''unique_id'' uniqueId else q)
      in req\<lparr>Query := q\<rparr>)"

definition addToReq :: "DNSRecordValue \<Rightarrow> Request \<Rightarrow> Request \<times> error option" where
  "addToReq r req =
     (if Name r = [] then (req, Some (errors_New ''DNSRecordValue.Name must not be empty''))
      else if RecordType r = [] then (req, Some (errors_New ''DNSRecordValue.RecordType must not be empty''))
      else if Value r = [] then (req, Some (errors_New ''DNSRecordValue.Value must not be empty''))
      else
        let q = Query req;
            q = Values_Add q ''record'' (Name r);
            q = Values_Add q ''type'' (RecordType r);
            q = Values_Add q ''value'' (Value r)
        in (req\<lparr>Query := q\<rparr>, None))"

text \<open>
  \<open>sendRequest\<close> threads the list of requests handed to \<open>c.client.Do\<close> so far: the call
  appends the request it sends, and leaves the list alone when it sends none.
\<close>

definition sendRequest ::
  "lib \<Rightarrow> DNSClient \<Rightarrow> DNSRecordValue \<Rightarrow> string \<Rightarrow> string \<Rightarrow> Request list
     \<Rightarrow> (DreamhostResponse option \<times> error option) \<times> Request list" where
  "sendRequest L c r cmd uniqueId sent =
     (let apiUrl = String (BaseURL c);
          apiUrl = (if \<not> strings_HasSuffix apiUrl ''/'' then apiUrl @ ''/'' else apiUrl)
      in (case http_NewRequest L ''GET'' apiUrl of
            Inl err \<Rightarrow> ((None, Some (Errorf_w ''failed to create request: '' err)), sent)
          | Inr req \<Rightarrow>
              (let req = prepareRequest c req cmd uniqueId
               in (case addToReq r req of
                     (req, Some err) \<Rightarrow> ((None, Some err), sent)
                   | (req, None) \<Rightarrow>
                       (let sent = sent @ [req]
                        in (case Client_Do L (client c) req of
                              Inl err \<Rightarrow> ((None, Some (Errorf_w ''HTTP request failed: '' err)), sent)
                            | Inr resp \<Rightarrow>
                                (if StatusCode resp < 200 \<or> StatusCode resp \<ge> 300
                                 then ((None, Some (Errorf_v ''dreamhost API returned unexpected status code ''
                                                      (fmt_v_int (StatusCode resp)))), sent)
                                 else (case io_ReadAll (Body resp) of
                                         (body, Some err) \<Rightarrow>
                                           ((None, Some (Errorf_w ''failed to read HTTP body: '' err)), sent)
                                       | (body, None) \<Rightarrow>
                                           (case json_Unmarshal L body of
                                              Inl err \<Rightarrow>
                                                ((None, Some (Errorf_w ''failed to parse response: '' err)), sent)
                                            | Inr apiResp \<Rightarrow>
                                                (if Result apiResp \<noteq> ''success''
                                                 then ((Some apiResp,
                                                        Some (Errorf_v ''dreamhost API returned non-successful result: ''
                                                                (fmt_v_DreamhostResponse apiResp))), sent)
                                                 else ((Some apiResp, None), sent)))))))))))"

definition suppressUniqueIdUsedErr :: "DreamhostResponse option \<Rightarrow> error option \<Rightarrow> error option" where
  "suppressUniqueIdUsedErr resp err =
     (case (err, resp) of
        (Some e, Some a) \<Rightarrow> if Data a = ''unique_id_already_used'' then None else err
      | _ \<Rightarrow> err)"

definition CreateRecord ::
  "lib \<Rightarrow> DNSClient \<Rightarrow> DNSRecordValue \<Rightarrow> string \<Rightarrow> Request list \<Rightarrow> error option \<times> Request list" where
  "CreateRecord L c r uniqueId sent =
     (case sendRequest L c r ''dns-add_record'' uniqueId sent of
        ((resp, err), sent) \<Rightarrow> (suppressUniqueIdUsedErr resp err, sent))"

definition DeleteRecord ::
  "lib \<Rightarrow> DNSClient \<Rightarrow> DNSRecordValue \<Rightarrow> string \<Rightarrow> Request list \<Rightarrow> error option \<times> Request list" where
  "DeleteRecord L c r uniqueId sent =
     (case sendRequest L c r ''dns-remove_record'' uniqueId sent of
        ((resp, err), sent) \<Rightarrow> (suppressUniqueIdUsedErr resp err, sent))"

subsection \<open>Notions used in the statements\<close>

text \<open>The string \<open>sendRequest\<close> passes to \<open>http.NewRequest\<close> (its local \<open>apiUrl\<close>).\<close>

definition apiUrl_of :: "DNSClient \<Rightarrow> string" where
  "apiUrl_of c =
     (if \<not> strings_HasSuffix (String (BaseURL c)) ''/'' then String (BaseURL c) @ ''/''
      else String (BaseURL c))"

text \<open>The request \<open>sendRequest\<close> hands to \<open>c.client.Do\<close> when \<open>http.NewRequest\<close> gave a
  request with the query parameters \<open>q0\<close>: that request after \<open>prepareRequest\<close> and
  \<open>addToReq\<close>.\<close>

definition built_request :: "DNSClient \<Rightarrow> Values \<Rightarrow> DNSRecordValue \<Rightarrow> string \<Rightarrow> string \<Rightarrow> Request" where
  "built_request c q0 r cmd uniqueId =
     fst (addToReq r (prepareRequest c
       \<lparr>Method = ''GET'', URL = apiUrl_of c, Header = Map.empty, Query = q0\<rparr> cmd uniqueId))"

subsection \<open>The test fixture (dreamhost_test.go)\<close>

text \<open>
  \<open>mockHttpResponse status body\<close> of the tests is a server that answers every request
  with the given status and body. As a \<open>lib\<close>: URLs without control bytes parse to
  themselves and carry no query, the exchange returns the status and the body, and
  \<open>json.Unmarshal\<close> is tabulated on the bodies the tests use.
\<close>

definition body_added :: string where
  \<open>body_added = ''{"result":"success","data":"record_added"}''\<close>

definition body_used :: string where
  \<open>body_used = ''{"data":"unique_id_already_used","result":"error"}''\<close>

definition body_exists :: string where
  \<open>body_exists = ''{"result":"error","data":"record_already_exists_remove_first"}''\<close>

definition test_Unmarshal :: "string \<Rightarrow> error + DreamhostResponse" where
  "test_Unmarshal b =
     (if b = body_added then Inr \<lparr>Result = ''success'', Data = ''record_added'', Reason = []\<rparr>
      else if b = body_used then Inr \<lparr>Result = ''error'', Data = ''unique_id_already_used'', Reason = []\<rparr>
      else if b = body_exists
        then Inr \<lparr>Result = ''error'', Data = ''record_already_exists_remove_first'', Reason = []\<rparr>
      else Inl (errorString ''invalid character looking for beginning of value''))"

definition test_Parse :: "string \<Rightarrow> error + URL" where
  "test_Parse s =
     (if list_ex (\<lambda>ch. of_char ch < (32::nat) \<or> of_char ch = (127::nat)) s
      then Inl (errorString ''net/url: invalid control character in URL'')
      else Inr (mkURL s))"

definition mockHttpResponse :: "int \<Rightarrow> string \<Rightarrow> lib" where
  "mockHttpResponse status body =
     \<lparr>url_Parse = test_Parse,
      request_Query = (\<lambda>s. case test_Parse s of Inl err \<Rightarrow> Inl err | Inr u \<Rightarrow> Inr Map.empty),
      Client_Do = (\<lambda>h req. Inr \<lparr>StatusCode = status, Body = ReadCloser body None\<rparr>),
      json_Unmarshal = test_Unmarshal\<rparr>"

definition test_client :: DNSClient where
  "test_client = \<lparr>apiKey = ''apikey123'', client = \<lparr>Timeout = Second * 15\<rparr>,
                  BaseURL = mkURL ''http://127.0.0.1:8080''\<rparr>"

definition test_record :: DNSRecordValue where
  "test_record = \<lparr>Name = ''example.com'', RecordType = ''TXT'', Value = ''testValue''\<rparr>"

text \<open>
  Three more situations, built on the fixture:
  \<^item> a client whose base URL carries a query string, \<open>https://api.dreamhost.com/?unique_id=x\<close>
    (\<open>NewClient\<close> accepts it): \<open>sendRequest\<close> appends the slash, and the request made
    from \<open>https://api.dreamhost.com/?unique_id=x/\<close> starts with the parameter
    \<open>unique_id=x/\<close>;
  \<^item> a client whose exported \<open>BaseURL\<close> field was set to a URL that prints as
    \<open>1http://x\<close>: \<open>http.NewRequest\<close> rejects \<open>1http://x/\<close>;
  \<^item> a server whose body cannot be read to the end.
\<close>

definition lib_with_query :: lib where
  "lib_with_query = (mockHttpResponse 200 body_added)
     \<lparr>request_Query := (\<lambda>s. if s = ''https://api.dreamhost.com/?unique_id=x/''
                               then Inr [''unique_id'' \<mapsto> [''x/'']] else Inr Map.empty)\<rparr>"

definition client_with_query :: DNSClient where
  "client_with_query = test_client\<lparr>BaseURL := mkURL ''https://api.dreamhost.com/?unique_id=x''\<rparr>"

definition lib_rejecting :: lib where
  "lib_rejecting = (mockHttpResponse 200 body_added)
     \<lparr>url_Parse := (\<lambda>s. if s = ''1http://x'' \<or> s = ''1http://x/''
                           then Inl (errorString ''first path segment in URL cannot contain colon'')
                           else test_Parse s),
      request_Query := (\<lambda>s. if s = ''1http://x/''
                               then Inl (errorString ''first path segment in URL cannot contain colon'')
                               else Inr Map.empty)\<rparr>"

definition client_rejected :: DNSClient where
  "client_rejected = test_client\<lparr>BaseURL := mkURL ''1http://x''\<rparr>"

definition client_two_slashes :: DNSClient where
  "client_two_slashes = test_client\<lparr>BaseURL := mkURL ''https://api.dreamhost.com//''\<rparr>"

definition lib_broken_body :: lib where
  "lib_broken_body = (mockHttpResponse 200 body_added)
     \<lparr>Client_Do := (\<lambda>h req. Inr \<lparr>StatusCode = 200,
                                    Body = ReadCloser [] (Some (errorString ''unexpected EOF''))\<rparr>)\<rparr>"

section \<open>Properties\<close>

subsection \<open>Strings\<close>

lemma strings_Contains_prefix: "strings_Contains (p @ s) p"
proof (cases "p @ s")
  case Nil
  then show ?thesis by simp
next
  case (Cons a l)
  have "take (length p) (a # l) = p"
    using Cons by (metis append_eq_conv_conj)
  then show ?thesis unfolding Cons by simp
qed

lemma contains_non_successful:
  "strings_Contains (''dreamhost API returned non-successful result: '' @ x)
     ''dreamhost API returned non-successful result''"
  using strings_Contains_prefix[of "''dreamhost API returned non-successful result''" "'': '' @ x"]
  by simp

lemma contains_status_code:
  "strings_Contains (''dreamhost API returned unexpected status code '' @ x)
     ''dreamhost API returned unexpected status code ''"
  by (rule strings_Contains_prefix)

lemma contains_read_body:
  "strings_Contains (''failed to read HTTP body: '' @ x) ''failed to read HTTP body''"
  using strings_Contains_prefix[of "''failed to read HTTP body''" "'': '' @ x"]
  by simp

lemma HasSuffix_iff: "strings_HasSuffix s suf \<longleftrightarrow> (\<exists>p. s = p @ suf)"
proof
  assume "strings_HasSuffix s suf"
  then have "s = take (length s - length suf) s @ suf"
    unfolding strings_HasSuffix_def by (metis append_take_drop_id)
  then show "\<exists>p. s = p @ suf" ..
next
  assume "\<exists>p. s = p @ suf"
  then show "strings_HasSuffix s suf"
    by (auto simp: strings_HasSuffix_def)
qed

lemma apiUrl_of_slash:
  "strings_HasSuffix (apiUrl_of c) ''/''"
  "\<not> strings_HasSuffix (String (BaseURL c)) ''/'' \<Longrightarrow> apiUrl_of c = String (BaseURL c) @ ''/''"
  "\<not> strings_HasSuffix (String (BaseURL c)) ''/'' \<Longrightarrow> \<not> strings_HasSuffix (apiUrl_of c) ''//''"
  "strings_HasSuffix (String (BaseURL c)) ''/'' \<Longrightarrow> apiUrl_of c = String (BaseURL c)"
proof -
  show "strings_HasSuffix (apiUrl_of c) ''/''"
    by (auto simp: apiUrl_of_def HasSuffix_iff)
  show "\<not> strings_HasSuffix (String (BaseURL c)) ''/'' \<Longrightarrow> apiUrl_of c = String (BaseURL c) @ ''/''"
    by (simp add: apiUrl_of_def)
  show "strings_HasSuffix (String (BaseURL c)) ''/'' \<Longrightarrow> apiUrl_of c = String (BaseURL c)"
    by (simp add: apiUrl_of_def)
  show "\<not> strings_HasSuffix (apiUrl_of c) ''//''" if n: "\<not> strings_HasSuffix (String (BaseURL c)) ''/''"
  proof
    assume "strings_HasSuffix (apiUrl_of c) ''//''"
    then obtain p where "String (BaseURL c) @ ''/'' = p @ ''//''"
      using n by (auto simp: apiUrl_of_def HasSuffix_iff)
    then have "String (BaseURL c) @ ''/'' = (p @ ''/'') @ ''/''" by simp
    then have "String (BaseURL c) = p @ ''/''" by (simp only: append_same_eq)
    with n show False by (auto simp: HasSuffix_iff)
  qed
qed

lemma fmt_v_int_500: "fmt_v_int 500 = ''500''"
  by code_simp

subsection \<open>The branches of \<open>sendRequest\<close>\<close>

lemma suppress_alt:
  "suppressUniqueIdUsedErr resp err =
     (if err \<noteq> None \<and> resp \<noteq> None \<and> map_option Data resp = Some ''unique_id_already_used''
      then None else err)"
  by (auto simp: suppressUniqueIdUsedErr_def split: option.splits)

lemma apiUrl_let:
  "(let apiUrl = String (BaseURL c);
        apiUrl = (if \<not> strings_HasSuffix apiUrl ''/'' then apiUrl @ ''/'' else apiUrl)
    in f apiUrl) = f (apiUrl_of c)"
  by (simp add: apiUrl_of_def Let_def)

lemma sendRequest_not_created:
  assumes "request_Query L (apiUrl_of c) = Inl e"
  shows "sendRequest L c r cmd uid sent = ((None, Some (Errorf_w ''failed to create request: '' e)), sent)"
  unfolding sendRequest_def apiUrl_let
  by (simp add: http_NewRequest_def assms)

lemma addToReq_invalid:
  assumes "Name r = [] \<or> RecordType r = [] \<or> Value r = []"
  shows "addToReq r req = (req, Some (errors_New
            (if Name r = [] then ''DNSRecordValue.Name must not be empty''
             else if RecordType r = [] then ''DNSRecordValue.RecordType must not be empty''
             else ''DNSRecordValue.Value must not be empty'')))"
  using assms unfolding addToReq_def by auto

lemma addToReq_valid:
  assumes "Name r \<noteq> []" "RecordType r \<noteq> []" "Value r \<noteq> []"
  shows "addToReq r req = (fst (addToReq r req), None)"
  using assms unfolding addToReq_def by (simp add: Let_def)

lemma sendRequest_invalid:
  assumes "request_Query L (apiUrl_of c) = Inr q0"
    and "Name r = [] \<or> RecordType r = [] \<or> Value r = []"
  shows "sendRequest L c r cmd uid sent = ((None, Some (errors_New
            (if Name r = [] then ''DNSRecordValue.Name must not be empty''
             else if RecordType r = [] then ''DNSRecordValue.RecordType must not be empty''
             else ''DNSRecordValue.Value must not be empty''))), sent)"
  unfolding sendRequest_def apiUrl_let
  by (simp only: http_NewRequest_def assms(1) sum.case Let_def addToReq_invalid[OF assms(2)] prod.case option.case)

lemma sendRequest_valid:
  assumes "request_Query L (apiUrl_of c) = Inr q0"
    and "Name r \<noteq> []" "RecordType r \<noteq> []" "Value r \<noteq> []"
  shows "sendRequest L c r cmd uid sent =
     ((case Client_Do L (client c) (built_request c q0 r cmd uid) of
         Inl err \<Rightarrow> (None, Some (Errorf_w ''HTTP request failed: '' err))
       | Inr resp \<Rightarrow>
           (if StatusCode resp < 200 \<or> StatusCode resp \<ge> 300
            then (None, Some (Errorf_v ''dreamhost API returned unexpected status code ''
                                 (fmt_v_int (StatusCode resp))))
            else (case io_ReadAll (Body resp) of
                    (body, Some err) \<Rightarrow> (None, Some (Errorf_w ''failed to read HTTP body: '' err))
                  | (body, None) \<Rightarrow>
                      (case json_Unmarshal L body of
                         Inl err \<Rightarrow> (None, Some (Errorf_w ''failed to parse response: '' err))
                       | Inr apiResp \<Rightarrow>
                           (if Result apiResp \<noteq> ''success''
                            then (Some apiResp,
                                  Some (Errorf_v ''dreamhost API returned non-successful result: ''
                                          (fmt_v_DreamhostResponse apiResp)))
                            else (Some apiResp, None)))))),
      sent @ [built_request c q0 r cmd uid])"
proof -
  have a: "addToReq r (prepareRequest c
       \<lparr>Method = ''GET'', URL = apiUrl_of c, Header = Map.empty, Query = q0\<rparr> cmd uid)
       = (built_request c q0 r cmd uid, None)"
    unfolding built_request_def using assms(2-4) by (rule addToReq_valid)
  show ?thesis
    unfolding sendRequest_def apiUrl_let
    apply (simp only: http_NewRequest_def assms(1) sum.case Let_def a prod.case option.case)
    apply (simp split: sum.splits prod.splits option.splits)
    done
qed

lemma sendRequest_issued:
  assumes "snd (sendRequest L c r cmd uid sent) = sent @ [req]"
  shows "\<exists>q0. request_Query L (apiUrl_of c) = Inr q0 \<and> Name r \<noteq> [] \<and> RecordType r \<noteq> [] \<and> Value r \<noteq> []
            \<and> req = built_request c q0 r cmd uid"
proof (cases "request_Query L (apiUrl_of c)")
  case (Inl e)
  from sendRequest_not_created[OF Inl] assms show ?thesis by simp
next
  case (Inr q0)
  show ?thesis
  proof (cases "Name r = [] \<or> RecordType r = [] \<or> Value r = []")
    case True
    from sendRequest_invalid[OF Inr True] assms show ?thesis by simp
  next
    case False
    then have v: "Name r \<noteq> []" "RecordType r \<noteq> []" "Value r \<noteq> []" by auto
    from sendRequest_valid[OF Inr v, of cmd uid sent] assms have "req = built_request c q0 r cmd uid"
      by simp
    with Inr v show ?thesis by blast
  qed
qed

lemma CreateRecord_alt:
  "CreateRecord L c r uid sent =
     (suppressUniqueIdUsedErr (fst (fst (sendRequest L c r ''dns-add_record'' uid sent)))
        (snd (fst (sendRequest L c r ''dns-add_record'' uid sent))),
      snd (sendRequest L c r ''dns-add_record'' uid sent))"
  by (simp add: CreateRecord_def split: prod.splits)

lemma DeleteRecord_alt:
  "DeleteRecord L c r uid sent =
     (suppressUniqueIdUsedErr (fst (fst (sendRequest L c r ''dns-remove_record'' uid sent)))
        (snd (fst (sendRequest L c r ''dns-remove_record'' uid sent))),
      snd (sendRequest L c r ''dns-remove_record'' uid sent))"
  by (simp add: DeleteRecord_def split: prod.splits)

lemma operation_alt:
  assumes "op = CreateRecord \<and> cmd = ''dns-add_record'' \<or> op = DeleteRecord \<and> cmd = ''dns-remove_record''"
  shows "op L c r uid sent =
     (suppressUniqueIdUsedErr (fst (fst (sendRequest L c r cmd uid sent)))
        (snd (fst (sendRequest L c r cmd uid sent))),
      snd (sendRequest L c r cmd uid sent))"
  using assms by (auto simp: CreateRecord_alt DeleteRecord_alt)

lemma operation_result:
  assumes "fst (sendRequest L c r cmd uid sent) = (resp, err)"
  shows "(cmd = ''dns-add_record'' \<longrightarrow> fst (CreateRecord L c r uid sent) = suppressUniqueIdUsedErr resp err)
       \<and> (cmd = ''dns-remove_record'' \<longrightarrow> fst (DeleteRecord L c r uid sent) = suppressUniqueIdUsedErr resp err)"
  using assms by (auto simp: CreateRecord_alt DeleteRecord_alt)

subsection \<open>The request that is sent\<close>

lemma built_request_fields:
  "Method (built_request c q0 r cmd uid) = ''GET''"
  "URL (built_request c q0 r cmd uid) = apiUrl_of c"
  by (simp_all add: built_request_def addToReq_def prepareRequest_def Let_def)

lemma built_request_Query:
  assumes "Name r \<noteq> []" "RecordType r \<noteq> []" "Value r \<noteq> []"
  shows "Query (built_request c q0 r cmd uid) =
           Values_Add (Values_Add (Values_Add
             (if uid \<noteq> [] then Values_Add (Values_Add (Values_Add (Values_Add q0 ''key'' (apiKey c)) ''cmd'' cmd)
                                  ''format'' ''json'') ''unique_id'' uid
              else Values_Add (Values_Add (Values_Add q0 ''key'' (apiKey c)) ''cmd'' cmd) ''format'' ''json'')
             ''record'' (Name r)) ''type'' (RecordType r)) ''value'' (Value r)"
  using assms by (simp add: built_request_def addToReq_def prepareRequest_def Let_def)

lemma built_request_cmd:
  assumes "Name r \<noteq> []" "RecordType r \<noteq> []" "Value r \<noteq> []"
  shows "Query (built_request c q0 r cmd uid) ''cmd'' = Some ((case q0 ''cmd'' of None \<Rightarrow> [] | Some vs \<Rightarrow> vs) @ [cmd])"
  by (simp add: built_request_Query[OF assms] Values_Add_def)

lemma built_request_other_cmd:
  assumes "Name r \<noteq> []" "RecordType r \<noteq> []" "Value r \<noteq> []"
  shows "built_request c q0 r cmd' uid =
           (built_request c q0 r cmd uid)\<lparr>Query := (Query (built_request c q0 r cmd uid))
              (''cmd'' \<mapsto> (case q0 ''cmd'' of None \<Rightarrow> [] | Some vs \<Rightarrow> vs) @ [cmd'])\<rparr>"
proof -
  have "Query (built_request c q0 r cmd' uid) = (Query (built_request c q0 r cmd uid))
              (''cmd'' \<mapsto> (case q0 ''cmd'' of None \<Rightarrow> [] | Some vs \<Rightarrow> vs) @ [cmd'])"
    unfolding built_request_Query[OF assms]
    by (rule ext) (simp add: Values_Add_def)
  moreover have "built_request c q0 r cmd' uid = (built_request c q0 r cmd uid)\<lparr>Query := Query (built_request c q0 r cmd' uid)\<rparr>"
    using assms by (simp add: built_request_def addToReq_def prepareRequest_def Let_def)
  ultimately show ?thesis by simp
qed

subsection \<open>The test fixture, evaluated\<close>

lemma test_apiUrl: "apiUrl_of test_client = ''http://127.0.0.1:8080/''"
  by (simp add: apiUrl_of_def test_client_def strings_HasSuffix_def)

lemma test_request_Query: "request_Query (mockHttpResponse st b) ''http://127.0.0.1:8080/'' = Inr Map.empty"
  by (simp add: mockHttpResponse_def test_Parse_def)

lemma test_record_valid:
  "Name test_record \<noteq> []" "RecordType test_record \<noteq> []" "Value test_record \<noteq> []"
  by (simp_all add: test_record_def)

lemma test_sendRequest:
  "fst (sendRequest (mockHttpResponse st b) test_client test_record cmd uid sent) =
     (if st < 200 \<or> st \<ge> 300
      then (None, Some (Errorf_v ''dreamhost API returned unexpected status code '' (fmt_v_int st)))
      else (case test_Unmarshal b of
              Inl err \<Rightarrow> (None, Some (Errorf_w ''failed to parse response: '' err))
            | Inr apiResp \<Rightarrow>
                (if Result apiResp \<noteq> ''success''
                 then (Some apiResp, Some (Errorf_v ''dreamhost API returned non-successful result: ''
                                            (fmt_v_DreamhostResponse apiResp)))
                 else (Some apiResp, None))))"
  unfolding sendRequest_valid[OF test_request_Query[unfolded test_apiUrl[symmetric]] test_record_valid]
  by (simp add: mockHttpResponse_def)

lemma test_sendRequest_used:
  "fst (sendRequest (mockHttpResponse 200 body_used) test_client test_record cmd uid []) =
     (Some \<lparr>Result = ''error'', Data = ''unique_id_already_used'', Reason = []\<rparr>,
      Some (errorString ''dreamhost API returned non-successful result: {error unique_id_already_used }''))"
  by (simp add: test_sendRequest test_Unmarshal_def body_used_def body_added_def Errorf_v_def fmt_v_DreamhostResponse_def)

text \<open>The outcomes the tests expect (\<open>TestCreateRecord\<close>, \<open>TestDeleteRecord\<close>,
  \<open>TestCreateRecordInvalidResponse\<close>, \<open>TestNewClientWithMinimalArgs\<close>).\<close>

lemma test_CreateRecord:
  "fst (CreateRecord (mockHttpResponse 200 body_added) test_client test_record [] []) = None"
  by (simp add: CreateRecord_alt test_sendRequest test_Unmarshal_def suppress_alt)

lemma test_DeleteRecord:
  "fst (DeleteRecord (mockHttpResponse 200 body_added) test_client test_record [] []) = None"
  by (simp add: DeleteRecord_alt test_sendRequest test_Unmarshal_def suppress_alt)

lemma test_CreateRecordInvalidResponse:
  "fst (CreateRecord (mockHttpResponse 200 ''invalid'') test_client test_record [] []) =
     Some (wrapError ''failed to parse response: invalid character looking for beginning of value''
             (errorString ''invalid character looking for beginning of value''))"
  by (simp add: CreateRecord_alt test_sendRequest test_Unmarshal_def suppress_alt Errorf_w_def
        body_added_def body_used_def body_exists_def)

lemma test_NewClientWithMinimalArgs:
  "NewClient (mockHttpResponse 200 body_added) ''test123'' None [] =
     (Some \<lparr>apiKey = ''test123'', client = \<lparr>Timeout = Second * 15\<rparr>, BaseURL = mkURL dreamhostBaseUrl\<rparr>,
      None)"
  by (simp add: NewClient_def mockHttpResponse_def test_Parse_def dreamhostBaseUrl_def)

lemma rejected_apiUrl: "apiUrl_of client_rejected = ''1http://x/''"
  by (simp add: apiUrl_of_def client_rejected_def test_client_def strings_HasSuffix_def)

lemma with_query_apiUrl: "apiUrl_of client_with_query = ''https://api.dreamhost.com/?unique_id=x/''"
  by (simp add: apiUrl_of_def client_with_query_def test_client_def strings_HasSuffix_def)

lemma with_query_request_Query:
  "request_Query lib_with_query (apiUrl_of client_with_query) = Inr [''unique_id'' \<mapsto> [''x/'']]"
  by (simp add: with_query_apiUrl lib_with_query_def)

subsection \<open>Idempotency suppression\<close>

text \<open>
  C1. Whatever \<open>sendRequest\<close> returned for the command of \<open>CreateRecord\<close> or of
  \<open>DeleteRecord\<close>: when it returned a response and an error and the response's \<open>Data\<close>
  is \<open>unique_id_already_used\<close>, the operation returns nil; in every other case it returns
  the error of \<open>sendRequest\<close> (nil included) unchanged.
\<close>

theorem unique_id_already_used_is_success:
  assumes "op = CreateRecord \<and> cmd = ''dns-add_record'' \<or> op = DeleteRecord \<and> cmd = ''dns-remove_record''"
    and "fst (sendRequest L c r cmd uid sent) = (resp, err)"
  shows "fst (op L c r uid sent) =
           (if resp \<noteq> None \<and> err \<noteq> None \<and> map_option Data resp = Some ''unique_id_already_used''
            then None else err)"
  using assms by (auto simp: CreateRecord_alt DeleteRecord_alt suppress_alt)

theorem unique_id_already_used_is_success_witness:
  "fst (sendRequest (mockHttpResponse 200 body_used) test_client test_record ''dns-add_record'' ''unique123'' []) =
     (Some \<lparr>Result = ''error'', Data = ''unique_id_already_used'', Reason = []\<rparr>,
      Some (errorString ''dreamhost API returned non-successful result: {error unique_id_already_used }''))
   \<and> fst (CreateRecord (mockHttpResponse 200 body_used) test_client test_record ''unique123'' []) = None"
  using unique_id_already_used_is_success[of CreateRecord "''dns-add_record''"
          "mockHttpResponse 200 body_used" test_client test_record "''unique123''" "[]", OF _ test_sendRequest_used]
  by (simp add: test_sendRequest_used)

subsection \<open>Validation of the record\<close>

text \<open>
  \<open>sendRequest\<close> calls \<open>http.NewRequest\<close> before \<open>addToReq\<close> validates the record. A client
  whose \<open>BaseURL\<close> prints as \<open>1http://x\<close> gets \<open>failed to create request\<close> for a record
  with an empty name, not the error that names the field.
\<close>

theorem validation_after_request_creation_counterexample:
  "Name \<lparr>Name = [], RecordType = ''TXT'', Value = ''testValue''\<rparr> = []
   \<and> CreateRecord lib_rejecting client_rejected \<lparr>Name = [], RecordType = ''TXT'', Value = ''testValue''\<rparr> ''abc123'' []
       = (Some (wrapError ''failed to create request: first path segment in URL cannot contain colon''
                 (errorString ''first path segment in URL cannot contain colon'')), [])
   \<and> fst (CreateRecord lib_rejecting client_rejected \<lparr>Name = [], RecordType = ''TXT'', Value = ''testValue''\<rparr> ''abc123'' [])
       \<noteq> Some (errors_New ''DNSRecordValue.Name must not be empty'')"
proof -
  have "request_Query lib_rejecting (apiUrl_of client_rejected)
          = Inl (errorString ''first path segment in URL cannot contain colon'')"
    by (simp add: rejected_apiUrl lib_rejecting_def)
  from sendRequest_not_created[OF this] show ?thesis
    by (simp add: CreateRecord_def Errorf_w_def suppressUniqueIdUsedErr_def errors_New_def)
qed

text \<open>
  C2, amended. For every record value with at least one empty field, \<open>CreateRecord\<close> and
  \<open>DeleteRecord\<close> send no request; and when \<open>http.NewRequest\<close> accepts the client's URL,
  they return the error that names exactly the first empty field, in the order name,
  record type, value.
\<close>

theorem empty_field_fails_locally:
  assumes "Name r = [] \<or> RecordType r = [] \<or> Value r = []"
  shows "snd (CreateRecord L c r uid sent) = sent \<and> snd (DeleteRecord L c r uid sent) = sent
       \<and> (\<forall>q0. request_Query L (apiUrl_of c) = Inr q0 \<longrightarrow>
            fst (CreateRecord L c r uid sent) = Some (errors_New
              (if Name r = [] then ''DNSRecordValue.Name must not be empty''
               else if RecordType r = [] then ''DNSRecordValue.RecordType must not be empty''
               else ''DNSRecordValue.Value must not be empty''))
          \<and> fst (DeleteRecord L c r uid sent) = Some (errors_New
              (if Name r = [] then ''DNSRecordValue.Name must not be empty''
               else if RecordType r = [] then ''DNSRecordValue.RecordType must not be empty''
               else ''DNSRecordValue.Value must not be empty'')))"
proof (cases "request_Query L (apiUrl_of c)")
  case (Inl e)
  show ?thesis
    by (simp add: CreateRecord_alt DeleteRecord_alt sendRequest_not_created[OF Inl] Inl)
next
  case (Inr q0)
  show ?thesis
    unfolding CreateRecord_alt DeleteRecord_alt sendRequest_invalid[OF Inr assms]
    by (simp add: Inr suppress_alt)
qed

theorem empty_field_fails_locally_witness:
  "(Name \<lparr>Name = ''example.com'', RecordType = [], Value = []\<rparr> = []
      \<or> RecordType \<lparr>Name = ''example.com'', RecordType = [], Value = []\<rparr> = []
      \<or> Value \<lparr>Name = ''example.com'', RecordType = [], Value = []\<rparr> = [])
   \<and> request_Query (mockHttpResponse 200 body_added) (apiUrl_of test_client) = Inr Map.empty
   \<and> CreateRecord (mockHttpResponse 200 body_added) test_client
        \<lparr>Name = ''example.com'', RecordType = [], Value = []\<rparr> ''abc123'' []
      = (Some (errors_New ''DNSRecordValue.RecordType must not be empty''), [])
   \<and> DeleteRecord (mockHttpResponse 200 body_added) test_client
        \<lparr>Name = ''example.com'', RecordType = [], Value = []\<rparr> ''abc123'' []
      = (Some (errors_New ''DNSRecordValue.RecordType must not be empty''), [])"
  using empty_field_fails_locally[of "\<lparr>Name = ''example.com'', RecordType = [], Value = []\<rparr>"
          "mockHttpResponse 200 body_added" test_client "''abc123''" "[]"]
  by (simp add: test_apiUrl test_request_Query prod_eq_iff)

subsection \<open>The query parameters\<close>

text \<open>
  The parameters are added to those the request already has. \<open>NewClient\<close> accepts the
  base URL \<open>https://api.dreamhost.com/?unique_id=x\<close>; a call with an empty identifier
  then sends a request that has a \<open>unique_id\<close> parameter.
\<close>

theorem base_url_query_is_kept_counterexample:
  "NewClient lib_with_query ''apikey123'' None ''https://api.dreamhost.com/?unique_id=x''
     = (Some client_with_query, None)
   \<and> length (snd (CreateRecord lib_with_query client_with_query test_record [] [])) = 1
   \<and> Values_Has (Query (hd (snd (CreateRecord lib_with_query client_with_query test_record [] []))))
        ''unique_id''
   \<and> Values_Get (Query (hd (snd (CreateRecord lib_with_query client_with_query test_record [] []))))
        ''unique_id'' = ''x/''"
proof -
  have n: "NewClient lib_with_query ''apikey123'' None ''https://api.dreamhost.com/?unique_id=x''
     = (Some client_with_query, None)"
    by (simp add: NewClient_def lib_with_query_def mockHttpResponse_def test_Parse_def
          client_with_query_def test_client_def)
  have s: "snd (CreateRecord lib_with_query client_with_query test_record [] [])
     = [built_request client_with_query [''unique_id'' \<mapsto> [''x/'']] test_record ''dns-add_record'' []]"
    by (simp add: CreateRecord_alt sendRequest_valid[OF with_query_request_Query test_record_valid])
  show ?thesis
    unfolding s
    by (simp add: n built_request_Query[OF test_record_valid] Values_Has_def Values_Get_def Values_Add_def)
qed

text \<open>
  C3, amended. For every valid record value (and a URL that \<open>http.NewRequest\<close> accepts,
  giving a request with the parameters \<open>q0\<close>), the operation sends one GET request whose
  query has, as the last value of each key, \<open>key\<close> (the API key), \<open>cmd\<close> (the command),
  \<open>format=json\<close>, \<open>record\<close>, \<open>type\<close> and \<open>value\<close>. When \<open>q0\<close> has no \<open>unique_id\<close>, the
  query has \<open>unique_id\<close> equal to the identifier exactly when the identifier is non-empty,
  and no \<open>unique_id\<close> at all otherwise. When \<open>q0\<close> is empty, these are all the parameters.
\<close>

theorem issued_request_parameters:
  assumes "op = CreateRecord \<and> cmd = ''dns-add_record'' \<or> op = DeleteRecord \<and> cmd = ''dns-remove_record''"
    and "Name r \<noteq> []" "RecordType r \<noteq> []" "Value r \<noteq> []"
    and "request_Query L (apiUrl_of c) = Inr q0"
  shows "\<exists>req. snd (op L c r uid sent) = sent @ [req] \<and> Method req = ''GET''
     \<and> (\<exists>vs. Query req ''key'' = Some (vs @ [apiKey c]))
     \<and> (\<exists>vs. Query req ''cmd'' = Some (vs @ [cmd]))
     \<and> (\<exists>vs. Query req ''format'' = Some (vs @ [''json'']))
     \<and> (\<exists>vs. Query req ''record'' = Some (vs @ [Name r]))
     \<and> (\<exists>vs. Query req ''type'' = Some (vs @ [RecordType r]))
     \<and> (\<exists>vs. Query req ''value'' = Some (vs @ [Value r]))
     \<and> (q0 ''unique_id'' = None \<longrightarrow> Query req ''unique_id'' = (if uid = [] then None else Some [uid]))
     \<and> (q0 = Map.empty \<longrightarrow>
          Query req = (if uid = []
            then [''key'' \<mapsto> [apiKey c], ''cmd'' \<mapsto> [cmd], ''format'' \<mapsto> [''json''],
                  ''record'' \<mapsto> [Name r], ''type'' \<mapsto> [RecordType r], ''value'' \<mapsto> [Value r]]
            else [''key'' \<mapsto> [apiKey c], ''cmd'' \<mapsto> [cmd], ''format'' \<mapsto> [''json''],
                  ''unique_id'' \<mapsto> [uid],
                  ''record'' \<mapsto> [Name r], ''type'' \<mapsto> [RecordType r], ''value'' \<mapsto> [Value r]]))"
proof -
  let ?req = "built_request c q0 r cmd uid"
  have s: "snd (op L c r uid sent) = sent @ [?req]"
    by (simp add: operation_alt[OF assms(1)] sendRequest_valid[OF assms(5,2,3,4)])
  have q: "Query ?req =
           Values_Add (Values_Add (Values_Add
             (if uid \<noteq> [] then Values_Add (Values_Add (Values_Add (Values_Add q0 ''key'' (apiKey c)) ''cmd'' cmd)
                                  ''format'' ''json'') ''unique_id'' uid
              else Values_Add (Values_Add (Values_Add q0 ''key'' (apiKey c)) ''cmd'' cmd) ''format'' ''json'')
             ''record'' (Name r)) ''type'' (RecordType r)) ''value'' (Value r)"
    by (rule built_request_Query[OF assms(2,3,4)])
  have k1: "\<exists>vs. Query ?req ''key'' = Some (vs @ [apiKey c])"
    unfolding q by (simp add: Values_Add_def)
  have k2: "\<exists>vs. Query ?req ''cmd'' = Some (vs @ [cmd])"
    unfolding q by (simp add: Values_Add_def)
  have k3: "\<exists>vs. Query ?req ''format'' = Some (vs @ [''json''])"
    unfolding q by (simp add: Values_Add_def)
  have k4: "\<exists>vs. Query ?req ''record'' = Some (vs @ [Name r])"
    unfolding q by (simp add: Values_Add_def)
  have k5: "\<exists>vs. Query ?req ''type'' = Some (vs @ [RecordType r])"
    unfolding q by (simp add: Values_Add_def)
  have k6: "\<exists>vs. Query ?req ''value'' = Some (vs @ [Value r])"
    unfolding q by (simp add: Values_Add_def)
  have u: "q0 ''unique_id'' = None \<longrightarrow> Query ?req ''unique_id'' = (if uid = [] then None else Some [uid])"
    unfolding q by (simp add: Values_Add_def)
  have e: "q0 = Map.empty \<longrightarrow>
          Query ?req = (if uid = []
            then [''key'' \<mapsto> [apiKey c], ''cmd'' \<mapsto> [cmd], ''format'' \<mapsto> [''json''],
                  ''record'' \<mapsto> [Name r], ''type'' \<mapsto> [RecordType r], ''value'' \<mapsto> [Value r]]
            else [''key'' \<mapsto> [apiKey c], ''cmd'' \<mapsto> [cmd], ''format'' \<mapsto> [''json''],
                  ''unique_id'' \<mapsto> [uid],
                  ''record'' \<mapsto> [Name r], ''type'' \<mapsto> [RecordType r], ''value'' \<mapsto> [Value r]])"
    unfolding q by (simp add: Values_Add_def)
  show ?thesis
    by (rule exI[of _ ?req]) (intro conjI s built_request_fields(1) k1 k2 k3 k4 k5 k6 u e)
qed

theorem issued_request_parameters_witness:
  "(CreateRecord = CreateRecord \<and> ''dns-add_record'' = ''dns-add_record''
      \<or> CreateRecord = DeleteRecord \<and> ''dns-add_record'' = ''dns-remove_record'')
   \<and> Name test_record \<noteq> [] \<and> RecordType test_record \<noteq> [] \<and> Value test_record \<noteq> []
   \<and> request_Query (mockHttpResponse 200 body_added) (apiUrl_of test_client) = Inr Map.empty
   \<and> (\<exists>req. snd (CreateRecord (mockHttpResponse 200 body_added) test_client test_record ''unique123'' []) = [req]
         \<and> Method req = ''GET''
         \<and> Query req = [''key'' \<mapsto> [''apikey123''], ''cmd'' \<mapsto> [''dns-add_record''], ''format'' \<mapsto> [''json''],
                  ''unique_id'' \<mapsto> [''unique123''],
                  ''record'' \<mapsto> [''example.com''], ''type'' \<mapsto> [''TXT''], ''value'' \<mapsto> [''testValue'']])"
proof -
  have q: "request_Query (mockHttpResponse 200 body_added) (apiUrl_of test_client) = Inr Map.empty"
    by (simp add: test_apiUrl test_request_Query)
  from issued_request_parameters[of CreateRecord "''dns-add_record''" test_record
         "mockHttpResponse 200 body_added" test_client Map.empty "''unique123''" "[]",
         OF _ test_record_valid q]
  obtain req where "snd (CreateRecord (mockHttpResponse 200 body_added) test_client test_record ''unique123'' []) = [req]"
    "Method req = ''GET''"
    "Query req = [''key'' \<mapsto> [apiKey test_client], ''cmd'' \<mapsto> [''dns-add_record''], ''format'' \<mapsto> [''json''],
                  ''unique_id'' \<mapsto> [''unique123''],
                  ''record'' \<mapsto> [Name test_record], ''type'' \<mapsto> [RecordType test_record],
                  ''value'' \<mapsto> [Value test_record]]"
    by auto
  then show ?thesis
    using q by (auto simp: test_record_def test_client_def)
qed

subsection \<open>Classification of the response\<close>

text \<open>
  C4. When the request was sent and the exchange returned a response with a 2xx status
  whose body is read without error and parses to \<open>a\<close> with \<open>Result a\<close> other than
  \<open>success\<close>, \<open>sendRequest\<close> returns the response \<open>a\<close> (not nil) together with an error
  whose message is \<open>dreamhost API returned non-successful result: \<close> followed by \<open>a\<close>.
\<close>

theorem non_success_returns_response_and_error:
  assumes "snd (sendRequest L c r cmd uid sent) = sent @ [req]"
    and "Client_Do L (client c) req = Inr rsp"
    and "200 \<le> StatusCode rsp \<and> StatusCode rsp \<le> 299"
    and "io_ReadAll (Body rsp) = (body, None)"
    and "json_Unmarshal L body = Inr a"
    and "Result a \<noteq> ''success''"
  shows "\<exists>e. fst (sendRequest L c r cmd uid sent) = (Some a, Some e)
           \<and> Error e = ''dreamhost API returned non-successful result: '' @ fmt_v_DreamhostResponse a
           \<and> strings_Contains (Error e) ''dreamhost API returned non-successful result''"
proof -
  from sendRequest_issued[OF assms(1)] obtain q0 where
    q: "request_Query L (apiUrl_of c) = Inr q0" and v: "Name r \<noteq> []" "RecordType r \<noteq> []" "Value r \<noteq> []"
    and req: "req = built_request c q0 r cmd uid" by blast
  have "fst (sendRequest L c r cmd uid sent) =
          (Some a, Some (errorString (''dreamhost API returned non-successful result: '' @ fmt_v_DreamhostResponse a)))"
    unfolding sendRequest_valid[OF q v]
    using assms(2-6) by (simp add: req Errorf_v_def)
  then show ?thesis
    using contains_non_successful by simp
qed

theorem non_success_returns_response_and_error_witness:
  "snd (sendRequest (mockHttpResponse 200 body_exists) test_client test_record ''dns-add_record'' [] [])
      = [] @ [built_request test_client Map.empty test_record ''dns-add_record'' []]
   \<and> Client_Do (mockHttpResponse 200 body_exists) (client test_client)
        (built_request test_client Map.empty test_record ''dns-add_record'' [])
      = Inr \<lparr>StatusCode = 200, Body = ReadCloser body_exists None\<rparr>
   \<and> json_Unmarshal (mockHttpResponse 200 body_exists) body_exists
      = Inr \<lparr>Result = ''error'', Data = ''record_already_exists_remove_first'', Reason = []\<rparr>
   \<and> (\<exists>e. fst (sendRequest (mockHttpResponse 200 body_exists) test_client test_record ''dns-add_record'' [] [])
            = (Some \<lparr>Result = ''error'', Data = ''record_already_exists_remove_first'', Reason = []\<rparr>, Some e)
          \<and> Error e = ''dreamhost API returned non-successful result: {error record_already_exists_remove_first }''
          \<and> strings_Contains (Error e) ''dreamhost API returned non-successful result'')"
proof -
  have s: "snd (sendRequest (mockHttpResponse 200 body_exists) test_client test_record ''dns-add_record'' [] [])
      = [] @ [built_request test_client Map.empty test_record ''dns-add_record'' []]"
    by (simp add: sendRequest_valid[OF test_request_Query[unfolded test_apiUrl[symmetric]] test_record_valid])
  have d: "Client_Do (mockHttpResponse 200 body_exists) (client test_client)
        (built_request test_client Map.empty test_record ''dns-add_record'' [])
      = Inr \<lparr>StatusCode = 200, Body = ReadCloser body_exists None\<rparr>"
    by (simp add: mockHttpResponse_def)
  have j: "json_Unmarshal (mockHttpResponse 200 body_exists) body_exists
      = Inr \<lparr>Result = ''error'', Data = ''record_already_exists_remove_first'', Reason = []\<rparr>"
    by (simp add: mockHttpResponse_def test_Unmarshal_def body_exists_def body_added_def body_used_def)
  from non_success_returns_response_and_error[OF s d _ _ j]
  show ?thesis using s d j by (simp add: fmt_v_DreamhostResponse_def)
qed

text \<open>
  C5. When the request was sent and the exchange returned a response whose status is
  below 200 or above 299, \<open>sendRequest\<close> returns a nil response and the error
  \<open>dreamhost API returned unexpected status code N\<close>, and so do \<open>CreateRecord\<close> and
  \<open>DeleteRecord\<close>, whatever the body of the response is.
\<close>

theorem unexpected_status_code:
  assumes "snd (sendRequest L c r cmd uid sent) = sent @ [req]"
    and "Client_Do L (client c) req = Inr rsp"
    and "StatusCode rsp < 200 \<or> StatusCode rsp > 299"
  shows "fst (sendRequest L c r cmd uid sent) =
           (None, Some (errorString (''dreamhost API returned unexpected status code ''
                                       @ fmt_v_int (StatusCode rsp))))
       \<and> strings_Contains (''dreamhost API returned unexpected status code '' @ fmt_v_int (StatusCode rsp))
            ''dreamhost API returned unexpected status code ''
       \<and> (cmd = ''dns-add_record'' \<longrightarrow> fst (CreateRecord L c r uid sent) =
             Some (errorString (''dreamhost API returned unexpected status code '' @ fmt_v_int (StatusCode rsp))))
       \<and> (cmd = ''dns-remove_record'' \<longrightarrow> fst (DeleteRecord L c r uid sent) =
             Some (errorString (''dreamhost API returned unexpected status code '' @ fmt_v_int (StatusCode rsp))))"
proof -
  from sendRequest_issued[OF assms(1)] obtain q0 where
    q: "request_Query L (apiUrl_of c) = Inr q0" and v: "Name r \<noteq> []" "RecordType r \<noteq> []" "Value r \<noteq> []"
    and req: "req = built_request c q0 r cmd uid" by blast
  have f: "fst (sendRequest L c r cmd uid sent) =
           (None, Some (errorString (''dreamhost API returned unexpected status code ''
                                       @ fmt_v_int (StatusCode rsp))))"
    unfolding sendRequest_valid[OF q v]
    using assms(2,3) by (auto simp: req Errorf_v_def)
  from operation_result[OF f] f show ?thesis
    by (simp add: suppress_alt contains_status_code)
qed

theorem unexpected_status_code_witness:
  "snd (sendRequest (mockHttpResponse 500 body_added) test_client test_record ''dns-add_record'' [] [])
      = [] @ [built_request test_client Map.empty test_record ''dns-add_record'' []]
   \<and> Client_Do (mockHttpResponse 500 body_added) (client test_client)
        (built_request test_client Map.empty test_record ''dns-add_record'' [])
      = Inr \<lparr>StatusCode = 500, Body = ReadCloser body_added None\<rparr>
   \<and> json_Unmarshal (mockHttpResponse 500 body_added) body_added
      = Inr \<lparr>Result = ''success'', Data = ''record_added'', Reason = []\<rparr>
   \<and> fst (CreateRecord (mockHttpResponse 500 body_added) test_client test_record [] [])
      = Some (errorString ''dreamhost API returned unexpected status code 500'')"
proof -
  have s: "snd (sendRequest (mockHttpResponse 500 body_added) test_client test_record ''dns-add_record'' [] [])
      = [] @ [built_request test_client Map.empty test_record ''dns-add_record'' []]"
    by (simp add: sendRequest_valid[OF test_request_Query[unfolded test_apiUrl[symmetric]] test_record_valid])
  have d: "Client_Do (mockHttpResponse 500 body_added) (client test_client)
        (built_request test_client Map.empty test_record ''dns-add_record'' [])
      = Inr \<lparr>StatusCode = 500, Body = ReadCloser body_added None\<rparr>"
    by (simp add: mockHttpResponse_def)
  have j: "json_Unmarshal (mockHttpResponse 500 body_added) body_added
      = Inr \<lparr>Result = ''success'', Data = ''record_added'', Reason = []\<rparr>"
    by (simp add: mockHttpResponse_def test_Unmarshal_def)
  from unexpected_status_code[OF s d]
  show ?thesis using s d j by (simp add: fmt_v_int_500)
qed

text \<open>
  C9. When the request was sent, the response has a 2xx status and reading its body fails
  with \<open>cause\<close>, \<open>sendRequest\<close> returns a nil response and an error that wraps \<open>cause\<close>
  with the message \<open>failed to read HTTP body: \<close>; it is no \<open>failed to parse response\<close>
  error, and \<open>CreateRecord\<close> and \<open>DeleteRecord\<close> return it (it is never suppressed).
\<close>

theorem unreadable_body_is_an_error:
  assumes "snd (sendRequest L c r cmd uid sent) = sent @ [req]"
    and "Client_Do L (client c) req = Inr rsp"
    and "200 \<le> StatusCode rsp \<and> StatusCode rsp \<le> 299"
    and "io_ReadAll (Body rsp) = (body, Some cause)"
  shows "fst (sendRequest L c r cmd uid sent) =
           (None, Some (wrapError (''failed to read HTTP body: '' @ Error cause) cause))
       \<and> strings_Contains (''failed to read HTTP body: '' @ Error cause) ''failed to read HTTP body''
       \<and> wrapError (''failed to read HTTP body: '' @ Error cause) cause
            \<noteq> Errorf_w ''failed to parse response: '' cause'
       \<and> (cmd = ''dns-add_record'' \<longrightarrow> fst (CreateRecord L c r uid sent) =
             Some (wrapError (''failed to read HTTP body: '' @ Error cause) cause))
       \<and> (cmd = ''dns-remove_record'' \<longrightarrow> fst (DeleteRecord L c r uid sent) =
             Some (wrapError (''failed to read HTTP body: '' @ Error cause) cause))"
proof -
  from sendRequest_issued[OF assms(1)] obtain q0 where
    q: "request_Query L (apiUrl_of c) = Inr q0" and v: "Name r \<noteq> []" "RecordType r \<noteq> []" "Value r \<noteq> []"
    and req: "req = built_request c q0 r cmd uid" by blast
  have f: "fst (sendRequest L c r cmd uid sent) =
           (None, Some (wrapError (''failed to read HTTP body: '' @ Error cause) cause))"
    unfolding sendRequest_valid[OF q v]
    using assms(2-4) by (simp add: req Errorf_w_def)
  from operation_result[OF f] f show ?thesis
    by (simp add: suppress_alt contains_read_body Errorf_w_def)
qed

theorem unreadable_body_is_an_error_witness:
  "snd (sendRequest lib_broken_body test_client test_record ''dns-add_record'' ''unique123'' [])
      = [] @ [built_request test_client Map.empty test_record ''dns-add_record'' ''unique123'']
   \<and> Client_Do lib_broken_body (client test_client)
        (built_request test_client Map.empty test_record ''dns-add_record'' ''unique123'')
      = Inr \<lparr>StatusCode = 200, Body = ReadCloser [] (Some (errorString ''unexpected EOF''))\<rparr>
   \<and> fst (CreateRecord lib_broken_body test_client test_record ''unique123'' [])
      = Some (wrapError ''failed to read HTTP body: unexpected EOF'' (errorString ''unexpected EOF''))"
proof -
  have q: "request_Query lib_broken_body (apiUrl_of test_client) = Inr Map.empty"
    by (simp add: test_apiUrl lib_broken_body_def mockHttpResponse_def test_Parse_def)
  have s: "snd (sendRequest lib_broken_body test_client test_record ''dns-add_record'' ''unique123'' [])
      = [] @ [built_request test_client Map.empty test_record ''dns-add_record'' ''unique123'']"
    by (simp add: sendRequest_valid[OF q test_record_valid])
  have d: "Client_Do lib_broken_body (client test_client)
        (built_request test_client Map.empty test_record ''dns-add_record'' ''unique123'')
      = Inr \<lparr>StatusCode = 200, Body = ReadCloser [] (Some (errorString ''unexpected EOF''))\<rparr>"
    by (simp add: lib_broken_body_def)
  from unreadable_body_is_an_error[OF s d, of "[]" "errorString ''unexpected EOF''"]
  show ?thesis using s d by simp
qed

text \<open>
  C10. With an empty unique identifier: when the request was sent and the 2xx response
  parses to a non-success \<open>a\<close> whose \<open>Data\<close> is \<open>unique_id_already_used\<close>, \<open>CreateRecord\<close>
  and \<open>DeleteRecord\<close> return nil; the call added no \<open>unique_id\<close> parameter to the request.
\<close>

theorem suppression_without_unique_id:
  assumes "op = CreateRecord \<and> cmd = ''dns-add_record'' \<or> op = DeleteRecord \<and> cmd = ''dns-remove_record''"
    and "snd (op L c r [] sent) = sent @ [req]"
    and "Client_Do L (client c) req = Inr rsp"
    and "200 \<le> StatusCode rsp \<and> StatusCode rsp \<le> 299"
    and "io_ReadAll (Body rsp) = (body, None)"
    and "json_Unmarshal L body = Inr a"
    and "Result a \<noteq> ''success''"
    and "Data a = ''unique_id_already_used''"
  shows "fst (op L c r [] sent) = None
       \<and> (\<exists>q0. request_Query L (URL req) = Inr q0 \<and> Query req ''unique_id'' = q0 ''unique_id'')"
proof -
  have s: "snd (sendRequest L c r cmd [] sent) = sent @ [req]"
    using assms(2) by (simp add: operation_alt[OF assms(1)])
  from sendRequest_issued[OF s] obtain q0 where
    q: "request_Query L (apiUrl_of c) = Inr q0" and v: "Name r \<noteq> []" "RecordType r \<noteq> []" "Value r \<noteq> []"
    and req: "req = built_request c q0 r cmd []" by blast
  have f: "fst (sendRequest L c r cmd [] sent) =
          (Some a, Some (errorString (''dreamhost API returned non-successful result: '' @ fmt_v_DreamhostResponse a)))"
    unfolding sendRequest_valid[OF q v]
    using assms(3-7) by (simp add: req Errorf_v_def)
  have r1: "fst (op L c r [] sent) = None"
    by (simp add: operation_alt[OF assms(1)] f suppress_alt assms(8))
  have r2: "request_Query L (URL req) = Inr q0 \<and> Query req ''unique_id'' = q0 ''unique_id''"
    by (simp add: req built_request_fields q built_request_Query[OF v] Values_Add_def)
  from r1 r2 show ?thesis by blast
qed

theorem suppression_without_unique_id_witness:
  "snd (DeleteRecord (mockHttpResponse 200 body_used) test_client test_record [] [])
      = [] @ [built_request test_client Map.empty test_record ''dns-remove_record'' []]
   \<and> Client_Do (mockHttpResponse 200 body_used) (client test_client)
        (built_request test_client Map.empty test_record ''dns-remove_record'' [])
      = Inr \<lparr>StatusCode = 200, Body = ReadCloser body_used None\<rparr>
   \<and> json_Unmarshal (mockHttpResponse 200 body_used) body_used
      = Inr \<lparr>Result = ''error'', Data = ''unique_id_already_used'', Reason = []\<rparr>
   \<and> fst (DeleteRecord (mockHttpResponse 200 body_used) test_client test_record [] []) = None
   \<and> Query (built_request test_client Map.empty test_record ''dns-remove_record'' []) ''unique_id'' = None"
proof -
  have s: "snd (DeleteRecord (mockHttpResponse 200 body_used) test_client test_record [] [])
      = [] @ [built_request test_client Map.empty test_record ''dns-remove_record'' []]"
    by (simp add: DeleteRecord_alt
          sendRequest_valid[OF test_request_Query[unfolded test_apiUrl[symmetric]] test_record_valid])
  have d: "Client_Do (mockHttpResponse 200 body_used) (client test_client)
        (built_request test_client Map.empty test_record ''dns-remove_record'' [])
      = Inr \<lparr>StatusCode = 200, Body = ReadCloser body_used None\<rparr>"
    by (simp add: mockHttpResponse_def)
  have j: "json_Unmarshal (mockHttpResponse 200 body_used) body_used
      = Inr \<lparr>Result = ''error'', Data = ''unique_id_already_used'', Reason = []\<rparr>"
    by (simp add: mockHttpResponse_def test_Unmarshal_def body_added_def body_used_def)
  have u: "request_Query (mockHttpResponse 200 body_used)
             (URL (built_request test_client Map.empty test_record ''dns-remove_record'' [])) = Inr Map.empty"
    by (simp add: built_request_fields test_apiUrl test_request_Query)
  from suppression_without_unique_id[of DeleteRecord "''dns-remove_record''" "mockHttpResponse 200 body_used"
         test_client test_record "[]" "built_request test_client Map.empty test_record ''dns-remove_record'' []"
         "\<lparr>StatusCode = 200, Body = ReadCloser body_used None\<rparr>" body_used
         "\<lparr>Result = ''error'', Data = ''unique_id_already_used'', Reason = []\<rparr>"]
  show ?thesis using s d j u by simp
qed

subsection \<open>The constructor\<close>

text \<open>
  C6. \<open>NewClient\<close> returns a nil client and the error \<open>empty apiKey\<close> when the API key is
  empty; a nil client and an error when a supplied (non-empty) base URL does not parse;
  and never a client together with an error.
\<close>

theorem NewClient_errors:
  "(apiKey' = [] \<longrightarrow> NewClient L apiKey' h baseUrl = (None, Some (errors_New ''empty apiKey'')))
   \<and> (baseUrl \<noteq> [] \<and> url_Parse L baseUrl = Inl e \<longrightarrow>
        NewClient L apiKey' h baseUrl =
          (None, Some (if apiKey' = [] then errors_New ''empty apiKey''
                       else Errorf_w ''failed to parse URL: '' e)))
   \<and> \<not> (fst (NewClient L apiKey' h baseUrl) \<noteq> None \<and> snd (NewClient L apiKey' h baseUrl) \<noteq> None)"
  by (simp add: NewClient_def Let_def split: sum.splits)

theorem NewClient_errors_witness:
  "NewClient (mockHttpResponse 200 body_added) [] None [] = (None, Some (errors_New ''empty apiKey''))
   \<and> url_Parse (mockHttpResponse 200 body_added) [CHR 0x7F]
        = Inl (errorString ''net/url: invalid control character in URL'')
   \<and> NewClient (mockHttpResponse 200 body_added) ''test123'' None [CHR 0x7F]
        = (None, Some (wrapError ''failed to parse URL: net/url: invalid control character in URL''
                         (errorString ''net/url: invalid control character in URL'')))"
  using NewClient_errors[of "[]" "mockHttpResponse 200 body_added" None "[]"]
        NewClient_errors[of "''test123''" "mockHttpResponse 200 body_added" None "[CHR 0x7F]"
           "errorString ''net/url: invalid control character in URL''"]
  by (simp add: mockHttpResponse_def test_Parse_def Errorf_w_def)

subsection \<open>The trailing slash\<close>

text \<open>
  \<open>sendRequest\<close> appends a slash when there is none and removes nothing. \<open>NewClient\<close>
  accepts the base URL \<open>https://api.dreamhost.com//\<close>, and the request then goes to a URL
  that ends with two slashes.
\<close>

theorem two_trailing_slashes_counterexample:
  "NewClient (mockHttpResponse 200 body_added) ''apikey123'' None ''https://api.dreamhost.com//''
     = (Some client_two_slashes, None)
   \<and> map URL (snd (CreateRecord (mockHttpResponse 200 body_added) client_two_slashes test_record [] []))
       = [''https://api.dreamhost.com//'']
   \<and> strings_HasSuffix ''https://api.dreamhost.com//'' ''//''"
proof -
  have n: "NewClient (mockHttpResponse 200 body_added) ''apikey123'' None ''https://api.dreamhost.com//''
     = (Some client_two_slashes, None)"
    by (simp add: NewClient_def mockHttpResponse_def test_Parse_def client_two_slashes_def test_client_def)
  have a: "apiUrl_of client_two_slashes = ''https://api.dreamhost.com//''"
    by (simp add: apiUrl_of_def client_two_slashes_def test_client_def strings_HasSuffix_def)
  have q: "request_Query (mockHttpResponse 200 body_added) (apiUrl_of client_two_slashes) = Inr Map.empty"
    by (simp add: a mockHttpResponse_def test_Parse_def)
  show ?thesis
    by (simp add: n CreateRecord_alt sendRequest_valid[OF q test_record_valid] built_request_fields a
          strings_HasSuffix_def)
qed

text \<open>
  C7, amended. The URL that \<open>CreateRecord\<close> and \<open>DeleteRecord\<close> send their request to ends
  with a slash: when the base URL lacks one, a slash is appended and the result ends with
  exactly one slash; a base URL that already ends with a slash is used as it is.
\<close>

theorem request_url_ends_with_slash:
  assumes "op = CreateRecord \<and> cmd = ''dns-add_record'' \<or> op = DeleteRecord \<and> cmd = ''dns-remove_record''"
    and "snd (op L c r uid sent) = sent @ [req]"
  shows "strings_HasSuffix (URL req) ''/''
       \<and> (\<not> strings_HasSuffix (String (BaseURL c)) ''/'' \<longrightarrow>
            URL req = String (BaseURL c) @ ''/'' \<and> \<not> strings_HasSuffix (URL req) ''//'')
       \<and> (strings_HasSuffix (String (BaseURL c)) ''/'' \<longrightarrow> URL req = String (BaseURL c))"
proof -
  have "snd (sendRequest L c r cmd uid sent) = sent @ [req]"
    using assms(2) by (simp add: operation_alt[OF assms(1)])
  from sendRequest_issued[OF this] obtain q0 where "req = built_request c q0 r cmd uid" by blast
  then have "URL req = apiUrl_of c" by (simp add: built_request_fields)
  then show ?thesis
    using apiUrl_of_slash[of c] by simp
qed

theorem request_url_ends_with_slash_witness:
  "snd (CreateRecord (mockHttpResponse 200 body_added) test_client test_record [] [])
      = [] @ [built_request test_client Map.empty test_record ''dns-add_record'' []]
   \<and> String (BaseURL test_client) = ''http://127.0.0.1:8080''
   \<and> URL (built_request test_client Map.empty test_record ''dns-add_record'' []) = ''http://127.0.0.1:8080/''"
proof -
  have s: "snd (CreateRecord (mockHttpResponse 200 body_added) test_client test_record [] [])
      = [] @ [built_request test_client Map.empty test_record ''dns-add_record'' []]"
    by (simp add: CreateRecord_alt
          sendRequest_valid[OF test_request_Query[unfolded test_apiUrl[symmetric]] test_record_valid])
  from request_url_ends_with_slash[of CreateRecord "''dns-add_record''" "mockHttpResponse 200 body_added"
         test_client test_record "[]" "[]" "built_request test_client Map.empty test_record ''dns-add_record'' []"]
  show ?thesis using s by (simp add: test_client_def strings_HasSuffix_def)
qed

subsection \<open>Create and delete\<close>

text \<open>
  C8. \<open>CreateRecord\<close> and \<open>DeleteRecord\<close> either both send nothing and return the same
  result, or each sends one request; the two requests are equal except for the last value
  of \<open>cmd\<close>, which is \<open>dns-add_record\<close> for the one and \<open>dns-remove_record\<close> for the other,
  and when the exchange answers both requests alike, the two operations return the same.
\<close>

theorem create_and_delete_differ_in_cmd_only:
  "(snd (CreateRecord L c r uid sent) = sent \<and> CreateRecord L c r uid sent = DeleteRecord L c r uid sent)
   \<or> (\<exists>rc rd vs.
         snd (CreateRecord L c r uid sent) = sent @ [rc]
       \<and> snd (DeleteRecord L c r uid sent) = sent @ [rd]
       \<and> Query rc ''cmd'' = Some (vs @ [''dns-add_record''])
       \<and> Query rd ''cmd'' = Some (vs @ [''dns-remove_record''])
       \<and> rd = rc\<lparr>Query := (Query rc)(''cmd'' \<mapsto> vs @ [''dns-remove_record''])\<rparr>
       \<and> (Client_Do L (client c) rc = Client_Do L (client c) rd \<longrightarrow>
            fst (CreateRecord L c r uid sent) = fst (DeleteRecord L c r uid sent)))"
proof (cases "request_Query L (apiUrl_of c)")
  case (Inl e)
  show ?thesis
    by (simp add: CreateRecord_alt DeleteRecord_alt sendRequest_not_created[OF Inl])
next
  case (Inr q0)
  show ?thesis
  proof (cases "Name r = [] \<or> RecordType r = [] \<or> Value r = []")
    case True
    show ?thesis
      unfolding CreateRecord_alt DeleteRecord_alt sendRequest_invalid[OF Inr True] by simp
  next
    case False
    then have v: "Name r \<noteq> []" "RecordType r \<noteq> []" "Value r \<noteq> []" by auto
    let ?rc = "built_request c q0 r ''dns-add_record'' uid"
    let ?rd = "built_request c q0 r ''dns-remove_record'' uid"
    let ?vs = "case q0 ''cmd'' of None \<Rightarrow> [] | Some vs \<Rightarrow> vs"
    have 1: "snd (CreateRecord L c r uid sent) = sent @ [?rc]"
      by (simp add: CreateRecord_alt sendRequest_valid[OF Inr v])
    have 2: "snd (DeleteRecord L c r uid sent) = sent @ [?rd]"
      by (simp add: DeleteRecord_alt sendRequest_valid[OF Inr v])
    have 3: "Query ?rc ''cmd'' = Some (?vs @ [''dns-add_record''])"
      by (rule built_request_cmd[OF v])
    have 4: "Query ?rd ''cmd'' = Some (?vs @ [''dns-remove_record''])"
      by (rule built_request_cmd[OF v])
    have 5: "?rd = ?rc\<lparr>Query := (Query ?rc)(''cmd'' \<mapsto> ?vs @ [''dns-remove_record''])\<rparr>"
      by (rule built_request_other_cmd[OF v])
    have 6: "Client_Do L (client c) ?rc = Client_Do L (client c) ?rd \<longrightarrow>
            fst (CreateRecord L c r uid sent) = fst (DeleteRecord L c r uid sent)"
      by (simp add: CreateRecord_alt DeleteRecord_alt sendRequest_valid[OF Inr v])
    have "\<exists>rc rd vs.
         snd (CreateRecord L c r uid sent) = sent @ [rc]
       \<and> snd (DeleteRecord L c r uid sent) = sent @ [rd]
       \<and> Query rc ''cmd'' = Some (vs @ [''dns-add_record''])
       \<and> Query rd ''cmd'' = Some (vs @ [''dns-remove_record''])
       \<and> rd = rc\<lparr>Query := (Query rc)(''cmd'' \<mapsto> vs @ [''dns-remove_record''])\<rparr>
       \<and> (Client_Do L (client c) rc = Client_Do L (client c) rd \<longrightarrow>
            fst (CreateRecord L c r uid sent) = fst (DeleteRecord L c r uid sent))"
      by (rule exI[of _ ?rc], rule exI[of _ ?rd], rule exI[of _ ?vs]) (intro conjI 1 2 3 4 5 6)
    then show ?thesis by (rule disjI2)
  qed
qed

theorem create_and_delete_differ_in_cmd_only_witness:
  "snd (CreateRecord (mockHttpResponse 200 body_exists) test_client test_record ''unique123'' [])
      = [built_request test_client Map.empty test_record ''dns-add_record'' ''unique123'']
   \<and> snd (DeleteRecord (mockHttpResponse 200 body_exists) test_client test_record ''unique123'' [])
      = [built_request test_client Map.empty test_record ''dns-remove_record'' ''unique123'']
   \<and> Client_Do (mockHttpResponse 200 body_exists) (client test_client)
        (built_request test_client Map.empty test_record ''dns-add_record'' ''unique123'')
      = Client_Do (mockHttpResponse 200 body_exists) (client test_client)
        (built_request test_client Map.empty test_record ''dns-remove_record'' ''unique123'')
   \<and> fst (CreateRecord (mockHttpResponse 200 body_exists) test_client test_record ''unique123'' [])
      = fst (DeleteRecord (mockHttpResponse 200 body_exists) test_client test_record ''unique123'' [])"
proof -
  have 1: "snd (CreateRecord (mockHttpResponse 200 body_exists) test_client test_record ''unique123'' [])
      = [built_request test_client Map.empty test_record ''dns-add_record'' ''unique123'']"
    by (simp add: CreateRecord_alt
          sendRequest_valid[OF test_request_Query[unfolded test_apiUrl[symmetric]] test_record_valid])
  have 2: "snd (DeleteRecord (mockHttpResponse 200 body_exists) test_client test_record ''unique123'' [])
      = [built_request test_client Map.empty test_record ''dns-remove_record'' ''unique123'']"
    by (simp add: DeleteRecord_alt
          sendRequest_valid[OF test_request_Query[unfolded test_apiUrl[symmetric]] test_record_valid])
  have 3: "Client_Do (mockHttpResponse 200 body_exists) (client test_client) x
      = Client_Do (mockHttpResponse 200 body_exists) (client test_client) y" for x y
    by (simp add: mockHttpResponse_def)
  from create_and_delete_differ_in_cmd_only[of "mockHttpResponse 200 body_exists" test_client test_record
         "''unique123''" "[]"]
  have "fst (CreateRecord (mockHttpResponse 200 body_exists) test_client test_record ''unique123'' [])
      = fst (DeleteRecord (mockHttpResponse 200 body_exists) test_client test_record ''unique123'' [])"
    unfolding 1 2 using 3 by auto
  with 1 2 3 show ?thesis by blast
qed

end
